theory Spec2Isabelle
  imports Main
begin

unbundle bit_operations_syntax

section \<open>Handlers and the request match state\<close>

text \<open>
  An \<open>http.Handler\<close> value of the router. Application handlers and middlewares are
  opaque and identified by a number; an engine, its tree-dispatch function
  \<open>mx.routeHTTP\<close> and the closure \<open>mountHandler\<close> built by \<open>Mount\<close> (which captures
  the mounting engine and the mounted handler) are handlers too. \<open>Wrapped m h\<close> is the
  handler that the middleware \<open>m\<close> returns for the next handler \<open>h\<close>.
\<close>

datatype handler =
    UserHandler nat
  | HttpNotFound
  | DefaultMethodNotAllowed
  | EngineHandler nat
  | RouteHTTP nat
  | MountHandler nat handler
  | Wrapped nat handler

type_synonym methodTyp = nat

record RouteParams =
  Keys :: "string list"
  Values :: "string list"

text \<open>The fields of \<open>Context\<close> that the router reads and writes.\<close>

record Context =
  Routes :: "nat option"
  RoutePath :: string
  RouteMethod :: string
  URLParams :: RouteParams
  routeParams :: RouteParams
  methodNotAllowed :: bool

text \<open>
  Modelled from the spec: \<open>NewRouteContext\<close> and \<open>Context.Reset\<close> (the context file is
  not part of the sources): a reset clears all fields for pool reuse.
\<close>

definition NewRouteContext :: Context where
  "NewRouteContext =
     \<lparr>Routes = None, RoutePath = [], RouteMethod = [],
      URLParams = \<lparr>Keys = [], Values = []\<rparr>,
      routeParams = \<lparr>Keys = [], Values = []\<rparr>,
      methodNotAllowed = False\<rparr>"

definition Reset :: "Context \<Rightarrow> Context" where
  "Reset x = NewRouteContext"

section \<open>Method registry\<close>

text \<open>
  Modelled from the spec: the method masks of the routing tree file (not part of the
  sources). One bit per registered method, a stub bit, and the any-method mask.
\<close>

definition mSTUB :: methodTyp where "mSTUB = 1"
definition mCONNECT :: methodTyp where "mCONNECT = 2"
definition mDELETE :: methodTyp where "mDELETE = 4"
definition mGET :: methodTyp where "mGET = 8"
definition mHEAD :: methodTyp where "mHEAD = 16"
definition mOPTIONS :: methodTyp where "mOPTIONS = 32"
definition mPATCH :: methodTyp where "mPATCH = 64"
definition mPOST :: methodTyp where "mPOST = 128"
definition mPUT :: methodTyp where "mPUT = 256"
definition mTRACE :: methodTyp where "mTRACE = 512"
definition mALL :: methodTyp where "mALL = 1022"

definition stdMethods :: "(string \<times> methodTyp) list" where
  "stdMethods =
     [(''CONNECT'', mCONNECT), (''DELETE'', mDELETE), (''GET'', mGET), (''HEAD'', mHEAD),
      (''OPTIONS'', mOPTIONS), (''PATCH'', mPATCH), (''POST'', mPOST), (''PUT'', mPUT),
      (''TRACE'', mTRACE)]"

text \<open>The registry pre-seeded with the standard verbs.\<close>

definition methodMap :: "string \<rightharpoonup> methodTyp" where
  "methodMap = map_of stdMethods"

section \<open>Routing tree\<close>

text \<open>
  Modelled from the spec: the segment pattern parser, the routing tree, \<open>InsertRoute\<close>,
  \<open>FindRoute\<close>, \<open>findPattern\<close> and \<open>routes\<close> (the tree file is not part of the
  sources). A pattern is an ordered sequence of typed segments; a static literal runs up
  to the next placeholder, so it may span several \<open>/\<close>.
\<close>

datatype segment =
    Static string
  | Param string
  | RegexParam string string
  | Wildcard

datatype pmode = Lit string | Brace string

definition lit :: "string \<Rightarrow> segment list" where
  "lit l = (if l = [] then [] else [Static l])"

definition mkParam :: "string \<Rightarrow> segment" where
  "mkParam b =
     (if CHR '':'' \<in> set b
      then RegexParam (takeWhile (\<lambda>c. c \<noteq> CHR '':'') b) (tl (dropWhile (\<lambda>c. c \<noteq> CHR '':'') b))
      else Param b)"

text \<open>
  Parse failures: an unterminated placeholder brace, a brace inside a placeholder, a
  wildcard followed by another placeholder, an empty segment from a doubled \<open>/\<close>. A
  literal after a trailing wildcard is accepted and ignored. Whether a regular
  expression compiles is decided by the host's regexp library and is not modelled.
\<close>

fun parseSegs :: "pmode \<Rightarrow> string \<Rightarrow> segment list option" where
  "parseSegs (Lit l) [] = Some (lit l)"
| "parseSegs (Brace b) [] = None"
| "parseSegs (Lit l) (c # cs) =
     (if c = CHR ''{'' then map_option (\<lambda>ss. lit l @ ss) (parseSegs (Brace []) cs)
      else if c = CHR ''*'' then
        (if CHR ''{'' \<in> set cs \<or> CHR ''*'' \<in> set cs then None else Some (lit l @ [Wildcard]))
      else if c = CHR ''/'' \<and> l \<noteq> [] \<and> last l = CHR ''/'' then None
      else parseSegs (Lit (l @ [c])) cs)"
| "parseSegs (Brace b) (c # cs) =
     (if c = CHR ''}'' then map_option (\<lambda>ss. mkParam b # ss) (parseSegs (Lit []) cs)
      else if c = CHR ''{'' then None
      else parseSegs (Brace (b @ [c])) cs)"

definition parsePattern :: "string \<Rightarrow> segment list option" where
  "parsePattern p = parseSegs (Lit []) p"

text \<open>
  A node owns its method table, an optional sub-router reference and its children, each
  under the segment that leads to it. The children are kept in the order in which a
  lookup attempts them.
\<close>

datatype node =
  Node (endpoints: "(methodTyp \<times> handler) list") (subroutes: "nat option")
       (children: "(segment \<times> node) list")

definition emptyNode :: node where
  "emptyNode = Node [] None []"

text \<open>
  The method table: a handler is stored under the stub bit when the mask has it, under
  the any-method mask when the mask covers every method, and under each single method
  bit of the mask otherwise. A lookup prefers the exact entry and falls back to the
  any-method entry.
\<close>

definition setKey :: "methodTyp \<Rightarrow> handler \<Rightarrow> (methodTyp \<times> handler) list \<Rightarrow> (methodTyp \<times> handler) list" where
  "setKey k h eps = (if k \<in> fst ` set eps then map (\<lambda>(k', h'). if k' = k then (k', h) else (k', h')) eps
                     else eps @ [(k, h)])"

definition setEndpoint :: "methodTyp \<Rightarrow> handler \<Rightarrow> (methodTyp \<times> handler) list \<Rightarrow> (methodTyp \<times> handler) list" where
  "setEndpoint msk h eps =
     (let eps1 = (if msk AND mSTUB = mSTUB then setKey mSTUB h eps else eps)
      in if msk AND mALL = mALL then setKey mALL h eps1
         else foldl (\<lambda>acc b. if msk AND b \<noteq> 0 then setKey b h acc else acc) eps1
                (map snd stdMethods))"

definition getEndpoint :: "(methodTyp \<times> handler) list \<Rightarrow> methodTyp \<Rightarrow> handler option" where
  "getEndpoint eps m = (case map_of eps m of Some h \<Rightarrow> Some h | None \<Rightarrow> map_of eps mALL)"

text \<open>
  Attempt order of the children of one node: static before regex before named
  parameter before wildcard, and a longer static literal before a shorter one.
\<close>

fun prio :: "segment \<Rightarrow> nat" where
  "prio (Static l) = 0"
| "prio (RegexParam n e) = 1"
| "prio (Param n) = 2"
| "prio Wildcard = 3"

fun litlen :: "segment \<Rightarrow> nat" where
  "litlen (Static l) = length l"
| "litlen s = 0"

definition before :: "segment \<Rightarrow> segment \<Rightarrow> bool" where
  "before s k = (prio s < prio k \<or> (prio s = prio k \<and> litlen k < litlen s))"

fun updChild :: "segment \<Rightarrow> (node \<Rightarrow> node) \<Rightarrow> (segment \<times> node) list \<Rightarrow> (segment \<times> node) list" where
  "updChild s g [] = [(s, g emptyNode)]"
| "updChild s g ((k, c) # cs) =
     (if k = s then (k, g c) # cs
      else if before s k then (s, g emptyNode) # (k, c) # cs
      else (k, c) # updChild s g cs)"

text \<open>Extend the trie one segment at a time and apply \<open>f\<close> at the terminal node.\<close>

fun insertSegs :: "segment list \<Rightarrow> (node \<Rightarrow> node) \<Rightarrow> node \<Rightarrow> node" where
  "insertSegs [] f n = f n"
| "insertSegs (s # ss) f (Node eps sub cs) = Node eps sub (updChild s (insertSegs ss f) cs)"

definition setHandler :: "methodTyp \<Rightarrow> handler \<Rightarrow> node \<Rightarrow> node" where
  "setHandler msk h n = Node (setEndpoint msk h (endpoints n)) (subroutes n) (children n)"

text \<open>
  \<open>InsertRoute\<close> returns the new tree and the terminal node, named by its segment
  sequence; a parse failure aborts (\<open>None\<close>).
\<close>

definition InsertRoute :: "node \<Rightarrow> methodTyp \<Rightarrow> string \<Rightarrow> handler \<Rightarrow> (node \<times> segment list) option" where
  "InsertRoute t msk pattern h =
     (case parsePattern pattern of
        None \<Rightarrow> None
      | Some segs \<Rightarrow> Some (insertSegs segs (setHandler msk h) t, segs))"

definition setSubroutes :: "segment list \<Rightarrow> nat \<Rightarrow> node \<Rightarrow> node" where
  "setSubroutes segs sub t =
     insertSegs segs (\<lambda>n. Node (endpoints n) (Some sub) (children n)) t"

text \<open>
  Matching one segment against the front of a path: the bindings it pushes and the
  path suffix left. A named parameter takes the non-empty run of characters up to the
  next \<open>/\<close>; a regex parameter takes the same run when the expression accepts it
  (\<open>rx e v\<close> is the host regexp library's verdict for expression \<open>e\<close> on \<open>v\<close>); a
  wildcard binds the reserved name \<open>*\<close> to the whole remainder.
\<close>

definition notSlash :: "char \<Rightarrow> bool" where
  "notSlash c = (c \<noteq> CHR ''/'')"

fun matchSeg :: "(string \<Rightarrow> string \<Rightarrow> bool) \<Rightarrow> segment \<Rightarrow> string \<Rightarrow> ((string \<times> string) list \<times> string) option" where
  "matchSeg rx (Static l) path =
     (if l \<noteq> [] \<and> take (length l) path = l then Some ([], drop (length l) path) else None)"
| "matchSeg rx (Param n) path =
     (if takeWhile notSlash path = [] then None
      else Some ([(n, takeWhile notSlash path)], dropWhile notSlash path))"
| "matchSeg rx (RegexParam n e) path =
     (if takeWhile notSlash path = [] \<or> \<not> rx e (takeWhile notSlash path) then None
      else Some ([(n, takeWhile notSlash path)], dropWhile notSlash path))"
| "matchSeg rx Wildcard path = Some ([(''*'', path)], [])"

text \<open>The parameter stack of the match state: push on a tentative match, pop on backtrack.\<close>

definition pushParams :: "(string \<times> string) list \<Rightarrow> Context \<Rightarrow> Context" where
  "pushParams bs x =
     x\<lparr>routeParams := \<lparr>Keys = Keys (routeParams x) @ map fst bs,
                        Values = Values (routeParams x) @ map snd bs\<rparr>\<rparr>"

definition truncateParams :: "nat \<Rightarrow> Context \<Rightarrow> Context" where
  "truncateParams k x =
     x\<lparr>routeParams := \<lparr>Keys = take k (Keys (routeParams x)),
                        Values = take k (Values (routeParams x))\<rparr>\<rparr>"

text \<open>
  The backtracking walk. A match completes only when the path is fully consumed at a
  node whose method table has an applicable entry. When the path is consumed at a
  terminal node without an applicable entry the method-not-allowed flag is set and the
  search goes on. The children are attempted in their stored order; after a failed
  attempt the stack is cut back to its length before the attempt.
\<close>

fun findRoute :: "(string \<Rightarrow> string \<Rightarrow> bool) \<Rightarrow> node \<Rightarrow> methodTyp \<Rightarrow> string \<Rightarrow> Context \<Rightarrow> Context \<times> (node \<times> handler) option"
and findChildren :: "(string \<Rightarrow> string \<Rightarrow> bool) \<Rightarrow> (segment \<times> node) list \<Rightarrow> methodTyp \<Rightarrow> string \<Rightarrow> Context \<Rightarrow> Context \<times> (node \<times> handler) option" where
  "findRoute rx (Node eps sub cs) m path x =
     (if path = [] then
        (case getEndpoint eps m of
           Some h \<Rightarrow> (x, Some (Node eps sub cs, h))
         | None \<Rightarrow> findChildren rx cs m path (if eps \<noteq> [] then x\<lparr>methodNotAllowed := True\<rparr> else x))
      else findChildren rx cs m path x)"
| "findChildren rx [] m path x = (x, None)"
| "findChildren rx ((s, c) # cs) m path x =
     (case matchSeg rx s path of
        None \<Rightarrow> findChildren rx cs m path x
      | Some (bs, rest) \<Rightarrow>
          (case findRoute rx c m rest (pushParams bs x) of
             (x', Some r) \<Rightarrow> (x', Some r)
           | (x', None) \<Rightarrow>
               findChildren rx cs m path (truncateParams (length (Keys (routeParams x))) x')))"

text \<open>
  \<open>FindRoute\<close> starts from an empty stack and, on success, appends the bindings of the
  match, outer to inner, to the finalized parameter list.
\<close>

definition appendParams :: "RouteParams \<Rightarrow> RouteParams \<Rightarrow> RouteParams" where
  "appendParams a b = \<lparr>Keys = Keys a @ Keys b, Values = Values a @ Values b\<rparr>"

definition FindRoute :: "(string \<Rightarrow> string \<Rightarrow> bool) \<Rightarrow> node \<Rightarrow> Context \<Rightarrow> methodTyp \<Rightarrow> string \<Rightarrow> Context \<times> (node \<times> handler) option" where
  "FindRoute rx t rctx m path =
     (case findRoute rx t m path (rctx\<lparr>routeParams := \<lparr>Keys = [], Values = []\<rparr>\<rparr>) of
        (x, None) \<Rightarrow> (x, None)
      | (x, Some r) \<Rightarrow> (x\<lparr>URLParams := appendParams (URLParams x) (routeParams x)\<rparr>, Some r))"

text \<open>A tree lookup of the literal pattern: follow its segments child by child.\<close>

fun walkSegs :: "segment list \<Rightarrow> node \<Rightarrow> node option" where
  "walkSegs [] n = Some n"
| "walkSegs (s # ss) n =
     (case map_of (children n) s of None \<Rightarrow> None | Some c \<Rightarrow> walkSegs ss c)"

definition findPattern :: "node \<Rightarrow> string \<Rightarrow> bool" where
  "findPattern t pattern =
     (case parsePattern pattern of
        None \<Rightarrow> False
      | Some segs \<Rightarrow> (case walkSegs segs t of None \<Rightarrow> False | Some n \<Rightarrow> True))"

text \<open>The route view: one entry per terminal node, with its reconstructed pattern.\<close>

record Route =
  Pattern :: string
  Handlers :: "(methodTyp \<times> handler) list"
  SubRoutes :: "nat option"

fun segText :: "segment \<Rightarrow> string" where
  "segText (Static l) = l"
| "segText (Param n) = ''{'' @ n @ ''}''"
| "segText (RegexParam n e) = ''{'' @ n @ '':'' @ e @ ''}''"
| "segText Wildcard = ''*''"

fun routesFrom :: "string \<Rightarrow> node \<Rightarrow> Route list"
and routesKids :: "string \<Rightarrow> (segment \<times> node) list \<Rightarrow> Route list" where
  "routesFrom pre (Node eps sub cs) =
     (if eps = [] then [] else [\<lparr>Pattern = pre, Handlers = eps, SubRoutes = sub\<rparr>])
       @ routesKids pre cs"
| "routesKids pre [] = []"
| "routesKids pre ((s, c) # cs) = routesFrom (pre @ segText s) c @ routesKids pre cs"

definition routes :: "node \<Rightarrow> Route list" where
  "routes t = routesFrom [] t"

section \<open>The engine\<close>

text \<open>
  Engines, trees and context pools are shared objects: an inline engine shares its
  parent's tree and pool, and a mounted engine is reached from a stub node and from the
  mount closure. They live in a store and are named by their addresses.
\<close>

record Engine =
  handler :: "handler option"
  tree :: nat
  methodNotAllowedHandler :: "handler option"
  parent :: "nat option"
  pool :: nat
  notFoundHandler :: "handler option"
  middlewares :: "nat list"
  inline :: bool

record heap =
  engines :: "nat \<rightharpoonup> Engine"
  trees :: "nat \<rightharpoonup> node"
  pools :: "nat \<rightharpoonup> Context list"
  nextId :: nat

datatype panic =
    MiddlewaresAfterRoutes
  | MethodNotSupported string
  | RouteNilSubrouter string
  | MountNilHandler string
  | MountExistingPath string
  | PatternMustBeginWithSlash string
  | BadPattern string
  | NilPointer
  | OutOfFuel

text \<open>A panic is returned together with the store as it was when the panic was raised.\<close>

type_synonym 'a result = "(panic \<times> heap) + 'a"

definition emptyHeap :: heap where
  "emptyHeap = \<lparr>engines = Map.empty, trees = Map.empty, pools = Map.empty, nextId = 0\<rparr>"

definition New :: "heap \<Rightarrow> heap \<times> nat" where
  "New h =
     (let e = nextId h in
      (h\<lparr>engines := (engines h)(e \<mapsto>
           \<lparr>handler = None, tree = e, methodNotAllowedHandler = None, parent = None,
            pool = e, notFoundHandler = None, middlewares = [], inline = False\<rparr>),
         trees := (trees h)(e \<mapsto> emptyNode),
         pools := (pools h)(e \<mapsto> []),
         nextId := e + 1\<rparr>, e))"

text \<open>
  Modelled from the spec: \<open>chain\<close> (the chain file is not part of the sources) folds
  the interceptor list so that the first-registered interceptor is outermost.
\<close>

definition chain :: "nat list \<Rightarrow> handler \<Rightarrow> handler" where
  "chain mws endpoint = foldr Wrapped mws endpoint"

definition Use :: "heap \<Rightarrow> nat \<Rightarrow> nat list \<Rightarrow> heap result" where
  "Use h e mws =
     (case engines h e of
        None \<Rightarrow> Inl (NilPointer, h)
      | Some mx \<Rightarrow>
          if handler mx \<noteq> None then Inl (MiddlewaresAfterRoutes, h)
          else Inr (h\<lparr>engines := (engines h)(e \<mapsto> mx\<lparr>middlewares := middlewares mx @ mws\<rparr>)\<rparr>))"

definition updateRouteHandler :: "nat \<Rightarrow> Engine \<Rightarrow> Engine" where
  "updateRouteHandler e mx = mx\<lparr>handler := Some (chain (middlewares mx) (RouteHTTP e))\<rparr>"

text \<open>
  \<open>handle\<close> returns the terminal node of the inserted route, named by its segment
  sequence. The computed handler is stored before the tree is extended, so a failing
  insertion leaves it in the store.
\<close>

definition handle :: "heap \<Rightarrow> nat \<Rightarrow> methodTyp \<Rightarrow> string \<Rightarrow> handler \<Rightarrow> (heap \<times> segment list) result" where
  "handle h e method pattern hdl =
     (case engines h e of
        None \<Rightarrow> Inl (NilPointer, h)
      | Some mx \<Rightarrow>
          if length pattern = 0 \<or> pattern ! 0 \<noteq> CHR ''/'' then Inl (PatternMustBeginWithSlash pattern, h)
          else
            let mx1 = (if \<not> inline mx \<and> handler mx = None then updateRouteHandler e mx else mx);
                mx2 = (if inline mx1 then mx1\<lparr>handler := Some (RouteHTTP e)\<rparr> else mx1);
                hh = (if inline mx1 then chain (middlewares mx1) hdl else hdl);
                h1 = h\<lparr>engines := (engines h)(e \<mapsto> mx2)\<rparr>
            in case trees h1 (tree mx2) of
                 None \<Rightarrow> Inl (NilPointer, h1)
               | Some t \<Rightarrow>
                   (case InsertRoute t method pattern hh of
                      None \<Rightarrow> Inl (BadPattern pattern, h1)
                    | Some (t', segs) \<Rightarrow> Inr (h1\<lparr>trees := (trees h1)(tree mx2 \<mapsto> t')\<rparr>, segs)))"

definition Handle :: "heap \<Rightarrow> nat \<Rightarrow> string \<Rightarrow> handler \<Rightarrow> heap result" where
  "Handle h e pattern hdl = map_sum id fst (handle h e mALL pattern hdl)"

definition ToUpper :: "string \<Rightarrow> string" where
  "ToUpper s =
     map (\<lambda>c. if 97 \<le> (of_char c :: nat) \<and> (of_char c :: nat) \<le> 122
              then char_of ((of_char c :: nat) - 32) else c) s"

definition Method :: "heap \<Rightarrow> nat \<Rightarrow> string \<Rightarrow> string \<Rightarrow> handler \<Rightarrow> heap result" where
  "Method h e method pattern hdl =
     (case methodMap (ToUpper method) of
        None \<Rightarrow> Inl (MethodNotSupported method, h)
      | Some m \<Rightarrow> map_sum id fst (handle h e m pattern hdl))"

definition Connect :: "heap \<Rightarrow> nat \<Rightarrow> string \<Rightarrow> handler \<Rightarrow> heap result" where
  "Connect h e pattern hdl = map_sum id fst (handle h e mCONNECT pattern hdl)"

definition Delete :: "heap \<Rightarrow> nat \<Rightarrow> string \<Rightarrow> handler \<Rightarrow> heap result" where
  "Delete h e pattern hdl = map_sum id fst (handle h e mDELETE pattern hdl)"

definition Get :: "heap \<Rightarrow> nat \<Rightarrow> string \<Rightarrow> handler \<Rightarrow> heap result" where
  "Get h e pattern hdl = map_sum id fst (handle h e mGET pattern hdl)"

definition Head :: "heap \<Rightarrow> nat \<Rightarrow> string \<Rightarrow> handler \<Rightarrow> heap result" where
  "Head h e pattern hdl = map_sum id fst (handle h e mHEAD pattern hdl)"

definition Options :: "heap \<Rightarrow> nat \<Rightarrow> string \<Rightarrow> handler \<Rightarrow> heap result" where
  "Options h e pattern hdl = map_sum id fst (handle h e mOPTIONS pattern hdl)"

definition Patch :: "heap \<Rightarrow> nat \<Rightarrow> string \<Rightarrow> handler \<Rightarrow> heap result" where
  "Patch h e pattern hdl = map_sum id fst (handle h e mPATCH pattern hdl)"

definition Post :: "heap \<Rightarrow> nat \<Rightarrow> string \<Rightarrow> handler \<Rightarrow> heap result" where
  "Post h e pattern hdl = map_sum id fst (handle h e mPOST pattern hdl)"

definition Put :: "heap \<Rightarrow> nat \<Rightarrow> string \<Rightarrow> handler \<Rightarrow> heap result" where
  "Put h e pattern hdl = map_sum id fst (handle h e mPUT pattern hdl)"

definition Trace :: "heap \<Rightarrow> nat \<Rightarrow> string \<Rightarrow> handler \<Rightarrow> heap result" where
  "Trace h e pattern hdl = map_sum id fst (handle h e mTRACE pattern hdl)"

definition NotFoundHandler :: "Engine \<Rightarrow> handler" where
  "NotFoundHandler mx = (case notFoundHandler mx of Some f \<Rightarrow> f | None \<Rightarrow> HttpNotFound)"

definition MethodNotAllowedHandler :: "Engine \<Rightarrow> handler" where
  "MethodNotAllowedHandler mx =
     (case methodNotAllowedHandler mx of Some f \<Rightarrow> f | None \<Rightarrow> DefaultMethodNotAllowed)"

definition bindR :: "'a result \<Rightarrow> ('a \<Rightarrow> 'b result) \<Rightarrow> 'b result" where
  "bindR r f = (case r of Inl p \<Rightarrow> Inl p | Inr a \<Rightarrow> f a)"

text \<open>
  \<open>NotFound\<close> and \<open>MethodNotAllowed\<close> recurse into the mounted sub-routers through
  the store; the recursion depth is bounded by a fuel argument, and running out of it
  is a panic of its own.
\<close>

fun NotFound :: "nat \<Rightarrow> heap \<Rightarrow> nat \<Rightarrow> handler \<Rightarrow> heap result"
and notFoundSubRoutes :: "nat \<Rightarrow> heap \<Rightarrow> Route list \<Rightarrow> handler \<Rightarrow> heap result" where
  "NotFound 0 h e handlerFn = Inl (OutOfFuel, h)"
| "NotFound (Suc k) h e handlerFn =
     (case engines h e of
        None \<Rightarrow> Inl (NilPointer, h)
      | Some mx \<Rightarrow>
          let m = (case (inline mx, parent mx) of (True, Some p) \<Rightarrow> p | _ \<Rightarrow> e);
              hFn = (case (inline mx, parent mx) of
                       (True, Some p) \<Rightarrow> chain (middlewares mx) handlerFn
                     | _ \<Rightarrow> handlerFn)
          in case engines h m of
               None \<Rightarrow> Inl (NilPointer, h)
             | Some mm \<Rightarrow>
                 let h1 = h\<lparr>engines := (engines h)(m \<mapsto> mm\<lparr>notFoundHandler := Some hFn\<rparr>)\<rparr>
                 in case trees h1 (tree mm) of
                      None \<Rightarrow> Inl (NilPointer, h1)
                    | Some t \<Rightarrow> notFoundSubRoutes k h1 (routes t) hFn)"
| "notFoundSubRoutes k h [] hFn = Inr h"
| "notFoundSubRoutes k h (r # rs) hFn =
     (case SubRoutes r of
        None \<Rightarrow> notFoundSubRoutes k h rs hFn
      | Some s \<Rightarrow>
          (case engines h s of
             None \<Rightarrow> notFoundSubRoutes k h rs hFn
           | Some subMux \<Rightarrow>
               if notFoundHandler subMux = None then
                 (case NotFound k h s hFn of
                    Inl p \<Rightarrow> Inl p
                  | Inr h' \<Rightarrow> notFoundSubRoutes k h' rs hFn)
               else notFoundSubRoutes k h rs hFn))"

fun MethodNotAllowed :: "nat \<Rightarrow> heap \<Rightarrow> nat \<Rightarrow> handler \<Rightarrow> heap result"
and methodNotAllowedSubRoutes :: "nat \<Rightarrow> heap \<Rightarrow> Route list \<Rightarrow> handler \<Rightarrow> heap result" where
  "MethodNotAllowed 0 h e handlerFn = Inl (OutOfFuel, h)"
| "MethodNotAllowed (Suc k) h e handlerFn =
     (case engines h e of
        None \<Rightarrow> Inl (NilPointer, h)
      | Some mx \<Rightarrow>
          let m = (case (inline mx, parent mx) of (True, Some p) \<Rightarrow> p | _ \<Rightarrow> e);
              hFn = (case (inline mx, parent mx) of
                       (True, Some p) \<Rightarrow> chain (middlewares mx) handlerFn
                     | _ \<Rightarrow> handlerFn)
          in case engines h m of
               None \<Rightarrow> Inl (NilPointer, h)
             | Some mm \<Rightarrow>
                 let h1 = h\<lparr>engines := (engines h)(m \<mapsto> mm\<lparr>methodNotAllowedHandler := Some hFn\<rparr>)\<rparr>
                 in case trees h1 (tree mm) of
                      None \<Rightarrow> Inl (NilPointer, h1)
                    | Some t \<Rightarrow> methodNotAllowedSubRoutes k h1 (routes t) hFn)"
| "methodNotAllowedSubRoutes k h [] hFn = Inr h"
| "methodNotAllowedSubRoutes k h (r # rs) hFn =
     (case SubRoutes r of
        None \<Rightarrow> methodNotAllowedSubRoutes k h rs hFn
      | Some s \<Rightarrow>
          (case engines h s of
             None \<Rightarrow> methodNotAllowedSubRoutes k h rs hFn
           | Some subMux \<Rightarrow>
               if methodNotAllowedHandler subMux = None then
                 (case MethodNotAllowed k h s hFn of
                    Inl p \<Rightarrow> Inl p
                  | Inr h' \<Rightarrow> methodNotAllowedSubRoutes k h' rs hFn)
               else methodNotAllowedSubRoutes k h rs hFn))"

definition With :: "heap \<Rightarrow> nat \<Rightarrow> nat list \<Rightarrow> (heap \<times> nat) result" where
  "With h e mws =
     (case engines h e of
        None \<Rightarrow> Inl (NilPointer, h)
      | Some mx \<Rightarrow>
          let mx1 = (if \<not> inline mx \<and> handler mx = None then updateRouteHandler e mx else mx);
              h1 = h\<lparr>engines := (engines h)(e \<mapsto> mx1)\<rparr>;
              mws' = (if inline mx1 then middlewares mx1 else []) @ mws;
              i = nextId h1
          in Inr (h1\<lparr>engines := (engines h1)(i \<mapsto>
                     \<lparr>handler = None, tree = tree mx1,
                      methodNotAllowedHandler = methodNotAllowedHandler mx1,
                      parent = Some e, pool = pool mx1,
                      notFoundHandler = notFoundHandler mx1,
                      middlewares = mws', inline = True\<rparr>),
                    nextId := i + 1\<rparr>, i))"

text \<open>
  \<open>Mount\<close>. The handler may be nil (\<open>None\<close>). Only an engine implements \<open>Routes\<close>,
  so only an engine is recorded as the sub-router of the stub node.
\<close>

definition propagateNotFound :: "nat \<Rightarrow> heap \<Rightarrow> nat \<Rightarrow> handler \<Rightarrow> heap result" where
  "propagateNotFound k h e hdl =
     (case (hdl, engines h e) of
        (EngineHandler s, Some mx) \<Rightarrow>
          (case (engines h s, notFoundHandler mx) of
             (Some subr, Some f) \<Rightarrow>
               if notFoundHandler subr = None then NotFound k h s f else Inr h
           | _ \<Rightarrow> Inr h)
      | _ \<Rightarrow> Inr h)"

definition propagateMethodNotAllowed :: "nat \<Rightarrow> heap \<Rightarrow> nat \<Rightarrow> handler \<Rightarrow> heap result" where
  "propagateMethodNotAllowed k h e hdl =
     (case (hdl, engines h e) of
        (EngineHandler s, Some mx) \<Rightarrow>
          (case (engines h s, methodNotAllowedHandler mx) of
             (Some subr, Some f) \<Rightarrow>
               if methodNotAllowedHandler subr = None then MethodNotAllowed k h s f else Inr h
           | _ \<Rightarrow> Inr h)
      | _ \<Rightarrow> Inr h)"

fun asRoutes :: "handler \<Rightarrow> nat option" where
  "asRoutes (EngineHandler s) = Some s"
| "asRoutes hdl = None"

definition setNodeSubroutes :: "heap \<Rightarrow> nat \<Rightarrow> segment list \<Rightarrow> nat \<Rightarrow> heap" where
  "setNodeSubroutes h e segs s =
     (case engines h e of
        None \<Rightarrow> h
      | Some mx \<Rightarrow>
          (case trees h (tree mx) of
             None \<Rightarrow> h
           | Some t \<Rightarrow> h\<lparr>trees := (trees h)(tree mx \<mapsto> setSubroutes segs s t)\<rparr>))"

definition Mount :: "nat \<Rightarrow> heap \<Rightarrow> nat \<Rightarrow> string \<Rightarrow> handler option \<Rightarrow> heap result" where
  "Mount k h e pattern handler_arg =
     (case handler_arg of
        None \<Rightarrow> Inl (MountNilHandler pattern, h)
      | Some hdl \<Rightarrow>
          (case engines h e of
             None \<Rightarrow> Inl (NilPointer, h)
           | Some mx \<Rightarrow>
               (case trees h (tree mx) of
                  None \<Rightarrow> Inl (NilPointer, h)
                | Some t \<Rightarrow>
                    if findPattern t (pattern @ ''*'') \<or> findPattern t (pattern @ ''/*'')
                    then Inl (MountExistingPath pattern, h)
                    else
                      bindR (propagateNotFound k h e hdl) (\<lambda>h1.
                      bindR (propagateMethodNotAllowed k h1 e hdl) (\<lambda>h2.
                      bindR (if pattern = [] \<or> last pattern \<noteq> CHR ''/''
                             then bindR (handle h2 e (mALL OR mSTUB) pattern (MountHandler e hdl)) (\<lambda>(h3, n1).
                                  bindR (handle h3 e (mALL OR mSTUB) (pattern @ ''/'') (MountHandler e hdl)) (\<lambda>(h4, n2).
                                  Inr (h4, pattern @ ''/'')))
                             else Inr (h2, pattern)) (\<lambda>(h5, pattern').
                      bindR (handle h5 e (if asRoutes hdl \<noteq> None then mALL OR mSTUB else mALL)
                               (pattern' @ ''*'') (MountHandler e hdl)) (\<lambda>(h6, n).
                      Inr (case asRoutes hdl of
                             None \<Rightarrow> h6
                           | Some s \<Rightarrow> setNodeSubroutes h6 e n s))))))))"

text \<open>\<open>Route\<close>: the callback \<open>fn\<close> configures the fresh sub-router; it may be nil.\<close>

definition Route :: "nat \<Rightarrow> heap \<Rightarrow> nat \<Rightarrow> string \<Rightarrow> (heap \<Rightarrow> nat \<Rightarrow> heap result) option \<Rightarrow> (heap \<times> nat) result" where
  "Route k h e pattern fn_arg =
     (case fn_arg of
        None \<Rightarrow> Inl (RouteNilSubrouter pattern, h)
      | Some fn \<Rightarrow>
          (case New h of
             (h1, subRouter) \<Rightarrow>
               bindR (fn h1 subRouter) (\<lambda>h2.
               bindR (Mount k h2 e pattern (Some (EngineHandler subRouter))) (\<lambda>h3.
               Inr (h3, subRouter)))))"

section \<open>Serving a request\<close>

text \<open>
  The request as the router reads it: the method, the URL's raw path and path, and
  the routing context attached to the request's context under \<open>RouteCtxKey\<close>, if any.
\<close>

record Request =
  Method_of :: string
  RawPath :: string
  Path :: string
  rctx_of :: "Context option"

definition nextRoutePath :: "Context \<Rightarrow> string" where
  "nextRoutePath rctx =
     (let ks = Keys (routeParams rctx); vs = Values (routeParams rctx) in
      if 0 < length ks \<and> ks ! (length ks - 1) = ''*'' \<and> length ks - 1 < length vs
      then ''/'' @ vs ! (length ks - 1)
      else ''/'')"

text \<open>
  The body of the closure \<open>mountHandler\<close>, up to its call of the mounted handler: the
  routing context with which the mounted handler is invoked. A request without a routing
  context makes the body dereference nil (\<open>None\<close>).
\<close>

definition mountHandler :: "Context option \<Rightarrow> Context option" where
  "mountHandler c =
     (case c of
        None \<Rightarrow> None
      | Some rctx \<Rightarrow>
          let rctx1 = rctx\<lparr>RoutePath := nextRoutePath rctx\<rparr>;
              ks = Keys (URLParams rctx1); vs = Values (URLParams rctx1)
          in if 0 < length ks \<and> ks ! (length ks - 1) = ''*'' \<and> length ks - 1 < length vs
             then Some (rctx1\<lparr>URLParams := \<lparr>Keys = ks, Values = vs[length ks - 1 := []]\<rparr>\<rparr>)
             else Some rctx1)"

text \<open>
  \<open>routeHTTP\<close> ends by serving the request with one handler: the result is the routing
  context as \<open>routeHTTP\<close> leaves it and the handler it invokes. \<open>None\<close> is the failed
  type assertion on a request that carries no routing context.
\<close>

definition routePathOf :: "Context \<Rightarrow> Request \<Rightarrow> string" where
  "routePathOf rctx r =
     (if RoutePath rctx = [] then
        (let p = (if RawPath r \<noteq> [] then RawPath r else Path r)
         in if p = [] then ''/'' else p)
      else RoutePath rctx)"

definition routeHTTP :: "(string \<Rightarrow> string \<Rightarrow> bool) \<Rightarrow> node \<Rightarrow> Engine \<Rightarrow> Request \<Rightarrow> (Context \<times> handler) option" where
  "routeHTTP rx t mx r =
     (case rctx_of r of
        None \<Rightarrow> None
      | Some rctx \<Rightarrow>
          let routePath = routePathOf rctx r;
              rctx1 = (if RouteMethod rctx = [] then rctx\<lparr>RouteMethod := Method_of r\<rparr> else rctx)
          in case methodMap (RouteMethod rctx1) of
               None \<Rightarrow> Some (rctx1, MethodNotAllowedHandler mx)
             | Some method \<Rightarrow>
                 (case FindRoute rx t rctx1 method routePath of
                    (rctx2, Some (n, hdl)) \<Rightarrow> Some (rctx2, hdl)
                  | (rctx2, None) \<Rightarrow>
                      if methodNotAllowed rctx2 then Some (rctx2, MethodNotAllowedHandler mx)
                      else Some (rctx2, NotFoundHandler mx)))"

text \<open>
  The context pool: \<open>Get\<close> takes a pooled context or makes a new one, \<open>Put\<close> gives one
  back.
\<close>

definition poolGet :: "heap \<Rightarrow> nat \<Rightarrow> Context \<times> heap" where
  "poolGet h p =
     (case pools h p of
        Some (c # cs) \<Rightarrow> (c, h\<lparr>pools := (pools h)(p \<mapsto> cs)\<rparr>)
      | _ \<Rightarrow> (NewRouteContext, h))"

definition poolPut :: "heap \<Rightarrow> nat \<Rightarrow> Context \<Rightarrow> heap" where
  "poolPut h p c =
     h\<lparr>pools := (pools h)(p \<mapsto> c # (case pools h p of Some cs \<Rightarrow> cs | None \<Rightarrow> []))\<rparr>"

text \<open>
  \<open>ServeHTTP\<close>. \<open>call hdl r\<close> is what serving \<open>r\<close> with the handler \<open>hdl\<close> does to the
  routing context attached to \<open>r\<close>: \<open>Some c\<close> when the handler returns and leaves the
  context as \<open>c\<close>, \<open>None\<close> when it panics. The result tells whether \<open>ServeHTTP\<close>
  returns (\<open>True\<close>) or panics, and the store it leaves.
\<close>

definition ServeHTTP :: "(handler \<Rightarrow> Request \<Rightarrow> Context option option) \<Rightarrow> heap \<Rightarrow> nat \<Rightarrow> Request \<Rightarrow> bool \<times> heap" where
  "ServeHTTP call h e r =
     (case engines h e of
        None \<Rightarrow> (False, h)
      | Some mx \<Rightarrow>
          (case handler mx of
             None \<Rightarrow> (call (NotFoundHandler mx) r \<noteq> None, h)
           | Some hdl \<Rightarrow>
               if rctx_of r \<noteq> None then (call hdl r \<noteq> None, h)
               else
                 (case poolGet h (pool mx) of
                    (c, h1) \<Rightarrow>
                      let rctx = (Reset c)\<lparr>Routes := Some e\<rparr>
                      in case call hdl (r\<lparr>rctx_of := Some rctx\<rparr>) of
                           None \<Rightarrow> (False, h1)
                         | Some c' \<Rightarrow>
                             (True, poolPut h1 (pool mx) (case c' of Some x \<Rightarrow> x | None \<Rightarrow> rctx)))))"

section \<open>Example configurations\<close>

text \<open>The dispatch handler of an engine has been built.\<close>

definition frozen :: "heap \<Rightarrow> nat \<Rightarrow> bool" where
  "frozen h e = (case engines h e of None \<Rightarrow> False | Some mx \<Rightarrow> handler mx \<noteq> None)"

definition heapOf :: "heap result \<Rightarrow> heap" where
  "heapOf r = (case r of Inl ph \<Rightarrow> snd ph | Inr h \<Rightarrow> h)"

text \<open>
  One engine (address 0), first fresh, then with the route \<open>GET /x\<close>, then after one
  served request, whose handler returns.
\<close>

definition freshHeap :: heap where
  "freshHeap = fst (New emptyHeap)"

definition frozenHeap :: heap where
  "frozenHeap = heapOf (Get freshHeap 0 ''/x'' (UserHandler 1))"

definition reqX :: Request where
  "reqX = \<lparr>Method_of = ''GET'', RawPath = [], Path = ''/x'', rctx_of = None\<rparr>"

definition returning :: "handler \<Rightarrow> Request \<Rightarrow> Context option option" where
  "returning hdl r = Some (rctx_of r)"

definition panicking :: "handler \<Rightarrow> Request \<Rightarrow> Context option option" where
  "panicking hdl r = None"

definition servedHeap :: heap where
  "servedHeap = snd (ServeHTTP returning frozenHeap 0 reqX)"

text \<open>A non-inline engine at address \<open>e\<close> with its handler built and nothing else set.\<close>

definition builtEngine :: "nat \<Rightarrow> Engine" where
  "builtEngine e =
     \<lparr>handler = Some (RouteHTTP e), tree = e, methodNotAllowedHandler = None, parent = None,
      pool = e, notFoundHandler = None, middlewares = [], inline = False\<rparr>"

text \<open>
  Two engines: the sub-router (address 1) has the route \<open>GET /widgets/{id}\<close> and is
  mounted by the parent (address 0) at \<open>/api\<close>.
\<close>

definition twoEngines :: heap where
  "twoEngines = fst (New (fst (New emptyHeap)))"

definition mountedHeap :: heap where
  "mountedHeap =
     heapOf (Mount 3 (heapOf (Get twoEngines 1 ''/widgets/{id}'' (UserHandler 1))) 0 ''/api''
               (Some (EngineHandler 1)))"

definition mountedTree :: node where
  "mountedTree =
     Node [] None
       [(Static ''/api/'',
         Node [(mSTUB, MountHandler 0 (EngineHandler 1)), (mALL, MountHandler 0 (EngineHandler 1))] None
           [(Wildcard,
             Node [(mSTUB, MountHandler 0 (EngineHandler 1)), (mALL, MountHandler 0 (EngineHandler 1))]
               (Some 1) [])]),
        (Static ''/api'',
         Node [(mSTUB, MountHandler 0 (EngineHandler 1)), (mALL, MountHandler 0 (EngineHandler 1))] None [])]"

section \<open>What a lookup should find\<close>

text \<open>
  What it means for a pattern to match a path, after the spec's words: the segments
  consume the path from left to right and nothing is left over; each parameter, regex
  and wildcard segment gives one binding, in the order of the segments.
\<close>

fun patternBindings :: "(string \<Rightarrow> string \<Rightarrow> bool) \<Rightarrow> segment list \<Rightarrow> string \<Rightarrow> (string \<times> string) list option" where
  "patternBindings rx [] path = (if path = [] then Some [] else None)"
| "patternBindings rx (s # ss) path =
     (case matchSeg rx s path of
        None \<Rightarrow> None
      | Some (bs, rest) \<Rightarrow> map_option (\<lambda>cs. bs @ cs) (patternBindings rx ss rest))"


text \<open>Every node of a tree with the segment sequence that leads to it from the root.\<close>

fun paths :: "node \<Rightarrow> (segment list \<times> node) list"
and pathsKids :: "(segment \<times> node) list \<Rightarrow> (segment list \<times> node) list" where
  "paths (Node eps sub cs) = ([], Node eps sub cs) # pathsKids cs"
| "pathsKids [] = []"
| "pathsKids ((s, c) # cs) = map (\<lambda>(ss, n). (s # ss, n)) (paths c) @ pathsKids cs"

text \<open>
  Some pattern of the list matches the path and leads to a node with the property \<open>P\<close>.
  Some registered pattern matches the path: it leads to a terminal node. Some registered
  pattern matches the path and has an applicable entry for the method.
\<close>

definition somePattern :: "(string \<Rightarrow> string \<Rightarrow> bool) \<Rightarrow> (segment list \<times> node) list \<Rightarrow> string \<Rightarrow> (node \<Rightarrow> bool) \<Rightarrow> bool" where
  "somePattern rx ps path P =
     (\<exists>(segs, n) \<in> set ps. P n \<and> patternBindings rx segs path \<noteq> None)"










definition anyRx :: "string \<Rightarrow> string \<Rightarrow> bool" where
  "anyRx e v = True"

text \<open>The fields of the match state that the walk does not write.\<close>

definition sameFrame :: "Context \<Rightarrow> Context \<Rightarrow> bool" where
  "sameFrame x y =
     (URLParams y = URLParams x \<and> RoutePath y = RoutePath x
      \<and> RouteMethod y = RouteMethod x \<and> Routes y = Routes x)"



text \<open>
  Modelled from the spec: \<open>Context.URLParam\<close> (the context file is not part of the
  sources) looks a finalized parameter up by name; of duplicates the most recently
  pushed value wins, and a missing name gives the empty string.
\<close>

definition URLParam :: "Context \<Rightarrow> string \<Rightarrow> string" where
  "URLParam c key =
     (case filter (\<lambda>kv. fst kv = key) (rev (zip (Keys (URLParams c)) (Values (URLParams c)))) of
        [] \<Rightarrow> []
      | kv # kvs \<Rightarrow> snd kv)"

text \<open>The request \<open>GET /api/widgets/7\<close>, with a fresh routing context attached.\<close>

definition reqApi :: Request where
  "reqApi = \<lparr>Method_of = ''GET'', RawPath = [], Path = ''/api/widgets/7'',
             rctx_of = Some NewRouteContext\<rparr>"

text \<open>The routing context after the parent's lookup for that request.\<close>

definition ctxApi :: Context where
  "ctxApi = NewRouteContext\<lparr>RouteMethod := ''GET'',
              URLParams := \<lparr>Keys = [''*''], Values = [''widgets/7'']\<rparr>,
              routeParams := \<lparr>Keys = [''*''], Values = [''widgets/7'']\<rparr>\<rparr>"

section \<open>Properties\<close>

subsection \<open>Evaluation of the example configurations\<close>

lemmas eval_defs =
  heapOf_def Get_def handle_def New_def emptyHeap_def InsertRoute_def parsePattern_def lit_def
  mkParam_def updateRouteHandler_def chain_def Let_def Mount_def findPattern_def bindR_def
  propagateNotFound_def propagateMethodNotAllowed_def emptyNode_def setHandler_def
  setEndpoint_def setKey_def stdMethods_def mALL_def mSTUB_def mGET_def setNodeSubroutes_def
  setSubroutes_def before_def mCONNECT_def mDELETE_def mHEAD_def mOPTIONS_def mPATCH_def
  mPOST_def mPUT_def mTRACE_def builtEngine_def

lemma frozenHeap_eval:
  "frozenHeap =
     \<lparr>engines = [0 \<mapsto> builtEngine 0],
      trees = [0 \<mapsto> Node [] None [(Static ''/x'', Node [(mGET, UserHandler 1)] None [])]],
      pools = [0 \<mapsto> []], nextId = 1\<rparr>"
  by (simp add: frozenHeap_def freshHeap_def eval_defs)

lemma servedHeap_eval:
  "servedHeap =
     \<lparr>engines = [0 \<mapsto> builtEngine 0],
      trees = [0 \<mapsto> Node [] None [(Static ''/x'', Node [(mGET, UserHandler 1)] None [])]],
      pools = [0 \<mapsto> [NewRouteContext\<lparr>Routes := Some 0\<rparr>]], nextId = 1\<rparr>"
  by (simp add: servedHeap_def frozenHeap_eval ServeHTTP_def returning_def poolGet_def
        poolPut_def Reset_def reqX_def builtEngine_def)

lemma mountedHeap_eval:
  "mountedHeap =
     \<lparr>engines = [1 \<mapsto> builtEngine 1, 0 \<mapsto> builtEngine 0],
      trees = [1 \<mapsto> Node [] None [(Static ''/widgets/'',
                        Node [] None [(Param ''id'', Node [(mGET, UserHandler 1)] None [])])],
               0 \<mapsto> mountedTree],
      pools = [0 \<mapsto> [], 1 \<mapsto> []], nextId = 2\<rparr>"
  by (simp add: mountedHeap_def twoEngines_def mountedTree_def eval_defs)

subsection \<open>Middleware registration after the handler is built\<close>

text \<open>
  Claim C5. On every router whose dispatch handler has been built, \<open>Use\<close> panics at
  once: the result is the panic, and the store, with it the middleware stack, is as it
  was before the call.
\<close>

theorem Use_after_build_panics:
  "frozen h e \<Longrightarrow> Use h e mws = Inl (MiddlewaresAfterRoutes, h)"
  by (auto simp: frozen_def Use_def split: option.splits)

theorem Use_after_build_panics_witness:
  "frozen frozenHeap 0 \<and> Use frozenHeap 0 [7] = Inl (MiddlewaresAfterRoutes, frozenHeap)"
proof -
  have f: "frozen frozenHeap 0" by (simp add: frozenHeap_eval frozen_def builtEngine_def)
  show ?thesis using f Use_after_build_panics [OF f, of "[7]"] by simp
qed

subsection \<open>Serving with no handler built\<close>


subsection \<open>Release of the routing context\<close>

text \<open>
  Claim C3, as the code has it. A top-level dispatch on a built engine takes a context
  from the pool. \<open>ServeHTTP\<close> returns exactly when the computed handler returns, and then
  a context is put back in place of the one taken. When the handler panics, the panic
  leaves \<open>ServeHTTP\<close> before the \<open>Put\<close>: the pool stays without the context taken.
\<close>

theorem ServeHTTP_pool_release:
  assumes "engines h e = Some mx" and "handler mx = Some hdl" and "rctx_of r = None"
    and "pools h (pool mx) = Some cs"
  shows "fst (ServeHTTP call h e r)
           = (call hdl (r\<lparr>rctx_of := Some (NewRouteContext\<lparr>Routes := Some e\<rparr>)\<rparr>) \<noteq> None)
       \<and> (if fst (ServeHTTP call h e r)
          then \<exists>c. pools (snd (ServeHTTP call h e r)) (pool mx) = Some (c # tl cs)
          else pools (snd (ServeHTTP call h e r)) (pool mx) = Some (tl cs))"
  using assms
  by (cases cs; cases "call hdl (r\<lparr>rctx_of := Some (NewRouteContext\<lparr>Routes := Some e\<rparr>)\<rparr>)")
     (auto simp: ServeHTTP_def poolGet_def poolPut_def Reset_def Let_def)

theorem ServeHTTP_pool_release_witness:
  "fst (ServeHTTP returning servedHeap 0 reqX)
   \<and> (\<exists>c. pools (snd (ServeHTTP returning servedHeap 0 reqX)) 0 = Some [c])"
proof -
  have e: "engines servedHeap 0 = Some (builtEngine 0)" by (simp add: servedHeap_eval)
  have hd: "handler (builtEngine 0) = Some (RouteHTTP 0)" by (simp add: builtEngine_def)
  have p: "pools servedHeap (pool (builtEngine 0)) = Some [NewRouteContext\<lparr>Routes := Some 0\<rparr>]"
    by (simp add: servedHeap_eval builtEngine_def)
  have r: "rctx_of reqX = None" by (simp add: reqX_def)
  have c: "returning (RouteHTTP 0) (reqX\<lparr>rctx_of := Some (NewRouteContext\<lparr>Routes := Some 0\<rparr>)\<rparr>) \<noteq> None"
    by (simp add: returning_def)
  note w = ServeHTTP_pool_release [OF e hd r p, of returning]
  from w c have f: "fst (ServeHTTP returning servedHeap 0 reqX)" by blast
  with w have "\<exists>c. pools (snd (ServeHTTP returning servedHeap 0 reqX)) (pool (builtEngine 0))
                   = Some (c # tl [NewRouteContext\<lparr>Routes := Some 0\<rparr>])"
    by presburger
  then show ?thesis using f by (simp add: builtEngine_def)
qed

theorem ServeHTTP_panic_counterexample:
  "frozen servedHeap 0 \<and> rctx_of reqX = None
   \<and> pools servedHeap 0 = Some [NewRouteContext\<lparr>Routes := Some 0\<rparr>]
   \<and> \<not> fst (ServeHTTP panicking servedHeap 0 reqX)
   \<and> pools (snd (ServeHTTP panicking servedHeap 0 reqX)) 0 = Some []"
  by (simp add: servedHeap_eval frozen_def builtEngine_def reqX_def ServeHTTP_def panicking_def
        poolGet_def Reset_def)

subsection \<open>Route registration after the handler is built\<close>

text \<open>
  Claim C2, as the code has it. \<open>handle\<close> has no guard on the built handler: on a
  router whose dispatch handler has been built, a registration whose pattern begins with
  \<open>/\<close> and parses is accepted and the routing tree is extended by \<open>InsertRoute\<close>
  (for an inline router, with the handler wrapped in its middlewares).
\<close>

theorem handle_after_build_inserts:
  assumes "engines h e = Some mx" and "handler mx \<noteq> None"
    and "trees h (tree mx) = Some t"
    and "pattern \<noteq> []" and "pattern ! 0 = CHR ''/''"
    and "InsertRoute t method pattern (if inline mx then chain (middlewares mx) hdl else hdl)
           = Some (t', segs)"
  shows "handle h e method pattern hdl
           = Inr (h\<lparr>engines := (engines h)(e \<mapsto> (if inline mx then mx\<lparr>handler := Some (RouteHTTP e)\<rparr> else mx)),
                   trees := (trees h)(tree mx \<mapsto> t')\<rparr>, segs)"
  using assms by (auto simp: handle_def Let_def)

theorem handle_after_build_inserts_witness:
  "handle frozenHeap 0 mGET ''/y'' (UserHandler 2)
     = Inr (frozenHeap\<lparr>engines := (engines frozenHeap)(0 \<mapsto> builtEngine 0),
             trees := (trees frozenHeap)(0 \<mapsto>
               Node [] None [(Static ''/x'', Node [(mGET, UserHandler 1)] None []),
                             (Static ''/y'', Node [(mGET, UserHandler 2)] None [])])\<rparr>,
            [Static ''/y''])"
proof -
  have e: "engines frozenHeap 0 = Some (builtEngine 0)" by (simp add: frozenHeap_eval)
  have t: "trees frozenHeap (tree (builtEngine 0))
      = Some (Node [] None [(Static ''/x'', Node [(mGET, UserHandler 1)] None [])])"
    by (simp add: frozenHeap_eval builtEngine_def)
  have i: "InsertRoute (Node [] None [(Static ''/x'', Node [(mGET, UserHandler 1)] None [])]) mGET ''/y''
        (if inline (builtEngine 0) then chain (middlewares (builtEngine 0)) (UserHandler 2) else UserHandler 2)
      = Some (Node [] None [(Static ''/x'', Node [(mGET, UserHandler 1)] None []),
                             (Static ''/y'', Node [(mGET, UserHandler 2)] None [])], [Static ''/y''])"
    by (simp add: eval_defs)
  have b: "handler (builtEngine 0) \<noteq> None" by (simp add: builtEngine_def)
  show ?thesis
    using handle_after_build_inserts [OF e b t _ _ i] by (simp add: builtEngine_def)
qed

theorem handle_after_build_counterexample:
  "frozen frozenHeap 0
   \<and> (case Get frozenHeap 0 ''/y'' (UserHandler 2) of
        Inl p \<Rightarrow> False
      | Inr h' \<Rightarrow> trees h' 0 \<noteq> trees frozenHeap 0)"
  by (simp add: frozenHeap_eval frozen_def eval_defs)

subsection \<open>Mounting on an existing mount, mounting nil\<close>



subsection \<open>The backtracking walk\<close>

lemma paths_Node:
  "(segs, n) \<in> set (paths (Node eps sub cs))
     \<longleftrightarrow> (segs = [] \<and> n = Node eps sub cs) \<or> (segs, n) \<in> set (pathsKids cs)"
  by auto

lemma pathsKids_Cons:
  "(segs, n) \<in> set (pathsKids ((s, c) # cs))
     \<longleftrightarrow> (\<exists>ss. segs = s # ss \<and> (ss, n) \<in> set (paths c)) \<or> (segs, n) \<in> set (pathsKids cs)"
  by auto



lemma routeParams_pushParams [simp]:
  "routeParams (pushParams bs x)
     = appendParams (routeParams x) \<lparr>Keys = map fst bs, Values = map snd bs\<rparr>"
  by (simp add: pushParams_def appendParams_def)


lemma appendParams_assoc:
  "appendParams (appendParams p \<lparr>Keys = map fst bs, Values = map snd bs\<rparr>)
       \<lparr>Keys = map fst cs, Values = map snd cs\<rparr>
     = appendParams p \<lparr>Keys = map fst (bs @ cs), Values = map snd (bs @ cs)\<rparr>"
  by (simp add: appendParams_def)

lemma appendParams_lengths:
  "length (Keys p) = length (Values p) \<Longrightarrow>
   length (Keys (appendParams p \<lparr>Keys = map fst bs, Values = map snd bs\<rparr>))
     = length (Values (appendParams p \<lparr>Keys = map fst bs, Values = map snd bs\<rparr>))"
  by (simp add: appendParams_def)

lemma appendParams_empty [simp]: "appendParams p \<lparr>Keys = [], Values = []\<rparr> = p"
  by (simp add: appendParams_def)




lemma methodNotAllowed_pushParams [simp]:
  "methodNotAllowed (pushParams bs x) = methodNotAllowed x"
  by (simp add: pushParams_def)

lemma methodNotAllowed_truncateParams [simp]:
  "methodNotAllowed (truncateParams k x) = methodNotAllowed x"
  by (simp add: truncateParams_def)

lemma somePattern_Nil [simp]: "somePattern rx [] path P = False"
  by (simp add: somePattern_def)




lemma getEndpoint_Nil [simp]: "getEndpoint [] m = None"
  by (simp add: getEndpoint_def)


lemma sameFrame_refl [simp]: "sameFrame x x"
  by (simp add: sameFrame_def)




lemma sameFrame_flag [simp]: "sameFrame x (x\<lparr>methodNotAllowed := b\<rparr>)"
  by (simp add: sameFrame_def)




subsection \<open>Parameter bindings of a successful lookup\<close>



subsection \<open>Not found and method not allowed\<close>






subsection \<open>Static before parameter\<close>

lemma before_irrefl [simp]: "\<not> before s s"
  by (simp add: before_def)











lemma pushParams_Nil [simp]: "pushParams [] x = x"
  by (simp add: pushParams_def)




subsection \<open>Delegation into a mounted sub-router\<close>

text \<open>
  Claim C4, as the code has it. When the lookup that selected the mount handler has
  bound the wildcard last, to the value \<open>v\<close>, the mount handler invokes the mounted
  handler with the remaining route path \<open>/v\<close>, and with the value of the finalized
  parameter \<open>*\<close> reset to the empty string; the stack of the lookup still holds \<open>v\<close>.
\<close>

theorem mountHandler_shifts_path:
  assumes "Keys (routeParams c) = ks @ [''*'']" and "Values (routeParams c) = vs @ [v]"
    and "length ks = length vs"
    and "Keys (URLParams c) = uks @ [''*'']" and "Values (URLParams c) = uvs @ [u]"
    and "length uks = length uvs"
  shows "mountHandler (Some c)
           = Some (c\<lparr>RoutePath := ''/'' @ v,
                     URLParams := \<lparr>Keys = uks @ [''*''], Values = uvs @ [[]]\<rparr>\<rparr>)
       \<and> URLParam (the (mountHandler (Some c))) ''*'' = []
       \<and> routeParams (the (mountHandler (Some c))) = routeParams c"
proof -
  have n: "nextRoutePath c = ''/'' @ v"
    using assms(1-3) by (simp add: nextRoutePath_def Let_def nth_append)
  have m: "mountHandler (Some c)
           = Some (c\<lparr>RoutePath := ''/'' @ v,
                     URLParams := \<lparr>Keys = uks @ [''*''], Values = uvs @ [[]]\<rparr>\<rparr>)"
    using assms(4-6) n by (simp add: mountHandler_def Let_def nth_append)
  show ?thesis unfolding m using assms(6) by (simp add: URLParam_def)
qed

theorem mountHandler_shifts_path_witness:
  "trees mountedHeap 0 = Some mountedTree
   \<and> routeHTTP anyRx mountedTree (builtEngine 0) reqApi = Some (ctxApi, MountHandler 0 (EngineHandler 1))
   \<and> mountHandler (Some ctxApi)
       = Some (ctxApi\<lparr>RoutePath := ''/widgets/7'', URLParams := \<lparr>Keys = [''*''], Values = [[]]\<rparr>\<rparr>)
   \<and> routeParams (the (mountHandler (Some ctxApi))) = \<lparr>Keys = [''*''], Values = [''widgets/7'']\<rparr>"
proof -
  have t: "trees mountedHeap 0 = Some mountedTree" by (simp add: mountedHeap_eval)
  have r: "routeHTTP anyRx mountedTree (builtEngine 0) reqApi = Some (ctxApi, MountHandler 0 (EngineHandler 1))"
    by (simp add: routeHTTP_def reqApi_def ctxApi_def routePathOf_def NewRouteContext_def
          methodMap_def stdMethods_def FindRoute_def mountedTree_def getEndpoint_def
          pushParams_def truncateParams_def appendParams_def mGET_def mALL_def mSTUB_def)
  have a: "Keys (routeParams ctxApi) = [] @ [''*'']" "Values (routeParams ctxApi) = [] @ [''widgets/7'']"
    "Keys (URLParams ctxApi) = [] @ [''*'']" "Values (URLParams ctxApi) = [] @ [''widgets/7'']"
    by (simp_all add: ctxApi_def)
  have l: "length ([] :: string list) = length ([] :: string list)" by simp
  show ?thesis
    using mountHandler_shifts_path [OF a(1) a(2) l a(3) a(4) l] t r by (simp add: ctxApi_def)
qed

theorem mountHandler_wildcard_counterexample:
  "trees mountedHeap 0 = Some mountedTree
   \<and> routeHTTP anyRx mountedTree (builtEngine 0) reqApi = Some (ctxApi, MountHandler 0 (EngineHandler 1))
   \<and> URLParam ctxApi ''*'' = ''widgets/7''
   \<and> URLParam (the (mountHandler (Some ctxApi))) ''*'' \<noteq> ''widgets/7''"
  by (simp add: mountedHeap_eval routeHTTP_def reqApi_def ctxApi_def routePathOf_def NewRouteContext_def
        methodMap_def stdMethods_def FindRoute_def mountedTree_def getEndpoint_def
        pushParams_def truncateParams_def appendParams_def mGET_def mALL_def mSTUB_def
        mountHandler_def nextRoutePath_def URLParam_def Let_def)

end
